theory Spec2Isabelle
  imports Main "HOL-Library.Word"
begin

section \<open>Go values shared by the packages\<close>

text \<open>
  An \<open>error\<close> built by \<open>errors.New\<close> carries its message. A Go function either
  returns or panics; \<open>Panics\<close> keeps the panic message, \<open>Returns\<close> the returned value.
\<close>

datatype error = errorString string

datatype 'a outcome = Panics string | Returns 'a

section \<open>Package cs (bw6-761): the hint functions\<close>

subsection \<open>The field element of package fr\<close>

text \<open>
  \<open>fr.Element\<close> is \<open>[6]uint64\<close>, little-endian limbs. An element is modelled by the
  natural number its six limbs hold, \<open>z[0] + 2^64 z[1] + ... + 2^320 z[5]\<close>; \<open>limb z j\<close>
  is \<open>z[j]\<close>. The library keeps a field value \<open>v\<close> in Montgomery form, the limbs holding
  \<open>v * R mod q\<close> with \<open>R = 2^384\<close>.

  Package fr belongs to gnark-crypto, not to this repository. Its constants are the
  record \<open>fr\<close>: the modulus \<open>q\<close> and \<open>R\<^sup>-\<^sup>1 mod q\<close>. Its operations are modelled by
  their contracts on reduced elements: \<open>FromMont\<close> multiplies the limbs by \<open>R\<^sup>-\<^sup>1\<close>,
  \<open>Exp\<close> raises the represented value to a power, \<open>Sub\<close> subtracts modulo \<open>q\<close>,
  \<open>IsUint64\<close> tests that limbs 1 to 5 are zero and \<open>Bit\<close> reads one bit of the limbs.
\<close>

type_synonym Element = nat

record fr =
  modulus :: nat
  rInverse :: nat

definition rMont :: nat where
  "rMont = 2 ^ 384"

definition limb :: "Element \<Rightarrow> nat \<Rightarrow> nat" where
  "limb z j = (z div 2 ^ (64 * j)) mod 2 ^ 64"

definition One :: "fr \<Rightarrow> Element" where
  "One F = rMont mod modulus F"

definition ToMont :: "fr \<Rightarrow> nat \<Rightarrow> Element" where
  "ToMont F v = (v * rMont) mod modulus F"

definition FromMont :: "fr \<Rightarrow> Element \<Rightarrow> Element" where
  "FromMont F z = (z * rInverse F) mod modulus F"

definition Exp :: "fr \<Rightarrow> Element \<Rightarrow> nat \<Rightarrow> Element" where
  "Exp F x e = ToMont F (FromMont F x ^ e mod modulus F)"

definition Sub :: "fr \<Rightarrow> Element \<Rightarrow> Element \<Rightarrow> Element" where
  "Sub F x y = (if y \<le> x then x - y else x + modulus F - y)"

definition IsUint64 :: "Element \<Rightarrow> bool" where
  "IsUint64 z = (limb z 5 = 0 \<and> limb z 4 = 0 \<and> limb z 3 = 0 \<and> limb z 2 = 0 \<and> limb z 1 = 0)"

definition Bit :: "Element \<Rightarrow> nat \<Rightarrow> nat" where
  "Bit z i = (let j = i div 64 in if j \<ge> 6 then 0 else (limb z j div 2 ^ (i mod 64)) mod 2)"

text \<open>
  The constants of the scalar field of BW6-761, the field the package is generated for:
  its modulus and the inverse of \<open>2^384\<close> modulo it.
\<close>

definition bw6_761_fr :: fr where
  "bw6_761_fr = \<lparr>
     modulus = 258664426012969094010652733694893533536393512754914660539884262666720468348340822774968888139573360124440321458177,
     rInverse = 193639650212296069206809223070911922792886794295675586437897404907786751263178459621544185310416431420969770445288\<rparr>"

text \<open>
  What the proofs need of the constants: the modulus is a prime below \<open>R\<close>, and
  \<open>rInverse\<close> inverts \<open>R\<close> modulo it. Primality is written with a bounded quantifier so
  that it can be evaluated.
\<close>

definition is_prime :: "nat \<Rightarrow> bool" where
  "is_prime p = (1 < p \<and> (\<forall>d\<in>{2..<p}. \<not> d dvd p))"

definition valid_fr :: "fr \<Rightarrow> bool" where
  "valid_fr F = (is_prime (modulus F) \<and> modulus F < rMont
                  \<and> (rMont * rInverse F) mod modulus F = 1)"

subsection \<open>powModulusMinusOne and ithBit\<close>

text \<open>
  \<open>qMinusOne\<close> is the package variable set by \<open>init\<close> to \<open>fr.Modulus() - 1\<close>.

  A hint receives the slice \<open>inputs\<close> and returns \<open>(fr.Element, error)\<close>. The slice
  shares its backing array with the caller, so the model returns, next to the result, the
  elements the slice holds when the hint returns.
\<close>

definition qMinusOne :: "fr \<Rightarrow> nat" where
  "qMinusOne F = modulus F - 1"

definition powModulusMinusOne :: "fr \<Rightarrow> Element list \<Rightarrow> (error + Element) \<times> Element list" where
  "powModulusMinusOne F inputs =
     (if length inputs \<noteq> 1
      then (Inl (errorString ''powModulusMinusOne expects one input''), inputs)
      else
        let v = Exp F (inputs ! 0) (qMinusOne F);
            one = One F;
            v = Sub F one v
        in (Inr v, inputs))"

definition ithBit :: "fr \<Rightarrow> Element list \<Rightarrow> (error + Element) \<times> Element list" where
  "ithBit F inputs =
     (if length inputs \<noteq> 2
      then (Inl (errorString
              ''ithBit expects 2 inputs; inputs[0] == value, inputs[1] == bit position''), inputs)
      else
        let inputs = inputs[0 := FromMont F (inputs ! 0)];
            inputs = inputs[1 := FromMont F (inputs ! 1)]
        in if \<not> IsUint64 (inputs ! 1)
           then (Inl (errorString
                   ''ithBit expects bit position (input[1]) to fit on one word''), inputs)
           else if Bit (inputs ! 0) (limb (inputs ! 1) 0) = 0
           then (Inr 0, inputs)
           else (Inr (One F), inputs))"

section \<open>Package mockcommitment: the mock polynomial commitment scheme\<close>

text \<open>
  \<open>Scheme\<close> is the empty struct. The digest, the opening proofs and the
  \<open>interface{}\<close> arguments are values of any type.
\<close>

datatype Scheme = Scheme

definition Verify_mock :: "Scheme \<Rightarrow> 'd \<Rightarrow> 'p \<Rightarrow> 'v \<Rightarrow> bool" where
  "Verify_mock s d p v = True"

definition BatchVerifySinglePoint :: "Scheme \<Rightarrow> 'a \<Rightarrow> 'b \<Rightarrow> 'c \<Rightarrow> 'p \<Rightarrow> bool" where
  "BatchVerifySinglePoint s point claimedValues commitments batchOpeningProof = True"

section \<open>Package groth16: the curve dispatch\<close>

subsection \<open>Curve identifiers and interface values\<close>

text \<open>
  \<open>ecc.ID\<close> is a \<open>uint16\<close> of gnark-crypto; its constants are numbered from \<open>UNKNOWN = 0\<close>
  in the order below. The dispatch only compares identifiers, so only the distinctness of
  the four constants matters.
\<close>

type_synonym ID = "16 word"

definition UNKNOWN :: ID where "UNKNOWN = 0"
definition BN254 :: ID where "BN254 = 1"
definition BLS12_377 :: ID where "BLS12_377 = 2"
definition BLS12_381 :: ID where "BLS12_381 = 3"
definition BW6_761 :: ID where "BW6_761 = 4"

text \<open>
  The four backends under \<open>internal/backend\<close>, named as the import aliases of the source
  name them (\<open>groth16_bn256\<close>, \<open>backend_bls377\<close>, \<open>witness_bw761\<close>, ...).

  A value of one of the interfaces \<open>Proof\<close>, \<open>ProvingKey\<close>, \<open>VerifyingKey\<close> and
  \<open>frontend.CompiledConstraintSystem\<close> is a pointer to the struct of one backend,
  \<open>Ptr b x\<close> with \<open>x\<close> the content of the struct, or a value of any other dynamic type,
  \<open>Foreign\<close>. The type assertion \<open>v.(*T)\<close> without the comma-ok form panics when the
  dynamic type is not \<open>*T\<close>.
\<close>

datatype backend = bn256 | bls377 | bls381 | bw761

datatype 'a iface = Ptr backend 'a | Foreign

definition assert_type :: "backend \<Rightarrow> 'a iface \<Rightarrow> 'a outcome" where
  "assert_type b v =
     (case v of
        Ptr b' x \<Rightarrow> if b' = b then Returns x else Panics ''interface conversion''
      | Foreign \<Rightarrow> Panics ''interface conversion'')"

text \<open>
  The variadic \<open>force ...bool\<close>: \<open>_force\<close> is false unless a first argument is given.
  An Isabelle name cannot start with an underscore, so the source's \<open>_force\<close>, \<open>_proof\<close>,
  \<open>_vk\<close>, \<open>_pk\<close> and \<open>_r1cs\<close> are written \<open>force'\<close>, \<open>proof'\<close>, \<open>vk'\<close>, \<open>pk'\<close> and
  \<open>r1cs'\<close>.
\<close>

definition force_flag :: "bool list \<Rightarrow> bool" where
  "force_flag force = (let force' = False in if length force > 0 then force ! 0 else force')"

subsection \<open>Verify, ReadAndVerify, Prove, ReadAndProve\<close>

text \<open>
  The four cases of each type switch differ only in the backend they name, so the model
  has one case with the backend \<open>b\<close> of the matched type. The functions of the backend
  packages are not among the sources verified here and are parameters, indexed by the
  backend:
  \<^item> \<open>FromPublicAssignment\<close>, \<open>FromFullAssignment\<close> and \<open>LimitReadFrom\<close> of package
    \<open>witness\<close> fill the witness \<open>w\<close> or return an error;
  \<^item> \<open>groth16_Verify\<close> and \<open>groth16_Prove\<close> are the per-curve verifier and prover, with the
    results they return, \<open>error\<close> and \<open>(*Proof, error)\<close>;
  \<^item> \<open>GetNbVariables\<close> and \<open>SizePublicWitness\<close> are the methods of the R1CS and of the
    verifying key. \<open>ReadAndProve\<close> calls \<open>r1cs.GetNbVariables()\<close> on the interface value,
    before its switch, so the parameter takes the interface value and may panic, as the
    call on a \<open>nil\<close> R1CS does.
  A Go \<open>error\<close> result is \<open>None\<close> for \<open>nil\<close>. The arguments of a call are evaluated before
  the call, so a failing type assertion in an argument panics before the backend runs.
  Go's \<open>int\<close> is the 64-bit signed integer: a 64-bit word, read by \<open>sint\<close>, whose sum and
  difference wrap around.
\<close>

type_synonym go_int = "64 word"

definition Verify ::
  "(backend \<Rightarrow> 'c \<Rightarrow> error + 'w) \<Rightarrow>
   (backend \<Rightarrow> 'proof \<Rightarrow> 'vk \<Rightarrow> 'w \<Rightarrow> error option outcome) \<Rightarrow>
   'proof iface \<Rightarrow> 'vk iface \<Rightarrow> 'c \<Rightarrow> error option outcome" where
  "Verify FromPublicAssignment groth16_Verify proof vk publicWitness =
     (case proof of
        Ptr b proof' \<Rightarrow>
          (case FromPublicAssignment b publicWitness of
             Inl err \<Rightarrow> Returns (Some err)
           | Inr w \<Rightarrow>
               (case assert_type b vk of
                  Panics m \<Rightarrow> Panics m
                | Returns vk' \<Rightarrow> groth16_Verify b proof' vk' w))
      | Foreign \<Rightarrow> Panics ''unrecognized R1CS curve type'')"

definition ReadAndVerify ::
  "(backend \<Rightarrow> 'vk \<Rightarrow> go_int) \<Rightarrow>
   (backend \<Rightarrow> 'r \<Rightarrow> go_int \<Rightarrow> error + 'w) \<Rightarrow>
   (backend \<Rightarrow> 'proof \<Rightarrow> 'vk \<Rightarrow> 'w \<Rightarrow> error option outcome) \<Rightarrow>
   'proof iface \<Rightarrow> 'vk iface \<Rightarrow> 'r \<Rightarrow> error option outcome" where
  "ReadAndVerify SizePublicWitness LimitReadFrom groth16_Verify proof vk publicWitness =
     (case vk of
        Ptr b vk' \<Rightarrow>
          (case LimitReadFrom b publicWitness (SizePublicWitness b vk') of
             Inl err \<Rightarrow> Returns (Some err)
           | Inr w \<Rightarrow>
               (case assert_type b proof of
                  Panics m \<Rightarrow> Panics m
                | Returns proof' \<Rightarrow> groth16_Verify b proof' vk' w))
      | Foreign \<Rightarrow> Panics ''unrecognized R1CS curve type'')"

text \<open>
  The dispatch returns the backend's \<open>(*Proof, error)\<close> as \<open>(Proof, error)\<close>: the pointer
  is wrapped in the interface.
\<close>

definition as_Proof ::
  "backend \<Rightarrow> ('proof option \<times> error option) outcome \<Rightarrow>
   ('proof iface option \<times> error option) outcome" where
  "as_Proof b r =
     (case r of
        Panics m \<Rightarrow> Panics m
      | Returns (p, err) \<Rightarrow> Returns (map_option (Ptr b) p, err))"

definition Prove ::
  "(backend \<Rightarrow> 'c \<Rightarrow> error + 'w) \<Rightarrow>
   (backend \<Rightarrow> 'cs \<Rightarrow> 'pk \<Rightarrow> 'w \<Rightarrow> bool \<Rightarrow> ('proof option \<times> error option) outcome) \<Rightarrow>
   'cs iface \<Rightarrow> 'pk iface \<Rightarrow> 'c \<Rightarrow> bool list \<Rightarrow>
   ('proof iface option \<times> error option) outcome" where
  "Prove FromFullAssignment groth16_Prove r1cs pk witness force =
     (let force' = force_flag force in
      case r1cs of
        Ptr b r1cs' \<Rightarrow>
          (case FromFullAssignment b witness of
             Inl err \<Rightarrow> Returns (None, Some err)
           | Inr w \<Rightarrow>
               (case assert_type b pk of
                  Panics m \<Rightarrow> Panics m
                | Returns pk' \<Rightarrow> as_Proof b (groth16_Prove b r1cs' pk' w force')))
      | Foreign \<Rightarrow> Panics ''unrecognized R1CS curve type'')"

definition ReadAndProve ::
  "('cs iface \<Rightarrow> (go_int \<times> go_int \<times> go_int) outcome) \<Rightarrow>
   (backend \<Rightarrow> 'r \<Rightarrow> go_int \<Rightarrow> error + 'w) \<Rightarrow>
   (backend \<Rightarrow> 'cs \<Rightarrow> 'pk \<Rightarrow> 'w \<Rightarrow> bool \<Rightarrow> ('proof option \<times> error option) outcome) \<Rightarrow>
   'cs iface \<Rightarrow> 'pk iface \<Rightarrow> 'r \<Rightarrow> bool list \<Rightarrow>
   ('proof iface option \<times> error option) outcome" where
  "ReadAndProve GetNbVariables LimitReadFrom groth16_Prove r1cs pk witness force =
     (let force' = force_flag force in
      case GetNbVariables r1cs of
        Panics m \<Rightarrow> Panics m
      | Returns (_, nbSecret, nbPublic) \<Rightarrow>
          let expectedSize = (nbSecret + nbPublic - 1) in
          (case r1cs of
             Ptr b r1cs' \<Rightarrow>
               (case LimitReadFrom b witness expectedSize of
                  Inl err \<Rightarrow> Returns (None, Some err)
                | Inr w \<Rightarrow>
                    (case assert_type b pk of
                       Panics m \<Rightarrow> Panics m
                     | Returns pk' \<Rightarrow> as_Proof b (groth16_Prove b r1cs' pk' w force')))
           | Foreign \<Rightarrow> Panics ''unrecognized R1CS curve type''))"

text \<open>
  Modelled from the spec: the per-curve prover \<open>Prove\<close> of
  \<open>internal/backend/<curve>/groth16\<close>, which is not among the sources verified here.
  Section 4.6: "run Solver
  to obtain witness; on error, either fail or proceed (force)", then the cryptographic steps
  produce the proof; section 4.4: the flag "suppresses unsatisfied-constraint failure so
  that subsequent cryptographic operations still execute". The solver, which returns the
  wire values it reached and its error, and the cryptographic steps are parameters.
\<close>

definition curve_Prove ::
  "(backend \<Rightarrow> 'cs \<Rightarrow> 'w \<Rightarrow> 'wires \<times> error option) \<Rightarrow>
   (backend \<Rightarrow> 'cs \<Rightarrow> 'pk \<Rightarrow> 'wires \<Rightarrow> 'proof) \<Rightarrow>
   backend \<Rightarrow> 'cs \<Rightarrow> 'pk \<Rightarrow> 'w \<Rightarrow> bool \<Rightarrow> ('proof option \<times> error option) outcome" where
  "curve_Prove Solve compute b r1cs pk w force =
     (case Solve b r1cs w of
        (wireValues, Some err) \<Rightarrow>
          if \<not> force then Returns (None, Some err)
          else Returns (Some (compute b r1cs pk wireValues), None)
      | (wireValues, None) \<Rightarrow> Returns (Some (compute b r1cs pk wireValues), None))"

subsection \<open>The constructors\<close>

text \<open>
  \<open>NewProvingKey\<close>, \<open>NewVerifyingKey\<close>, \<open>NewProof\<close> and \<open>NewCS\<close> return a pointer to the
  zero value of the backend's struct. The structs are declared in the backend packages;
  \<open>zero b\<close> is the zero value of the struct of backend \<open>b\<close>.
\<close>

definition NewProvingKey :: "(backend \<Rightarrow> 'pk) \<Rightarrow> ID \<Rightarrow> 'pk iface outcome" where
  "NewProvingKey zero curveID =
     (if curveID = BN254 then Returns (Ptr bn256 (zero bn256))
      else if curveID = BLS12_377 then Returns (Ptr bls377 (zero bls377))
      else if curveID = BLS12_381 then Returns (Ptr bls381 (zero bls381))
      else if curveID = BW6_761 then Returns (Ptr bw761 (zero bw761))
      else Panics ''not implemented'')"

definition NewVerifyingKey :: "(backend \<Rightarrow> 'vk) \<Rightarrow> ID \<Rightarrow> 'vk iface outcome" where
  "NewVerifyingKey zero curveID =
     (if curveID = BN254 then Returns (Ptr bn256 (zero bn256))
      else if curveID = BLS12_377 then Returns (Ptr bls377 (zero bls377))
      else if curveID = BLS12_381 then Returns (Ptr bls381 (zero bls381))
      else if curveID = BW6_761 then Returns (Ptr bw761 (zero bw761))
      else Panics ''not implemented'')"

definition NewProof :: "(backend \<Rightarrow> 'proof) \<Rightarrow> ID \<Rightarrow> 'proof iface outcome" where
  "NewProof zero curveID =
     (if curveID = BN254 then Returns (Ptr bn256 (zero bn256))
      else if curveID = BLS12_377 then Returns (Ptr bls377 (zero bls377))
      else if curveID = BLS12_381 then Returns (Ptr bls381 (zero bls381))
      else if curveID = BW6_761 then Returns (Ptr bw761 (zero bw761))
      else Panics ''not implemented'')"

definition NewCS :: "(backend \<Rightarrow> 'cs) \<Rightarrow> ID \<Rightarrow> 'cs iface outcome" where
  "NewCS zero curveID =
     (if curveID = BN254 then Returns (Ptr bn256 (zero bn256))
      else if curveID = BLS12_377 then Returns (Ptr bls377 (zero bls377))
      else if curveID = BLS12_381 then Returns (Ptr bls381 (zero bls381))
      else if curveID = BW6_761 then Returns (Ptr bw761 (zero bw761))
      else Panics ''not implemented'')"

subsection \<open>Stand-ins for the backend functions\<close>

text \<open>
  Concrete backend functions, on which the dispatch can be evaluated. A witness is the list
  of its field elements; an assignment is the list of the values it assigns; a witness stream
  is the list of the elements that follow its length prefix, and reading \<open>expectedSize\<close>
  elements takes them from its head. The verifier accepts, the prover returns the witness
  it was given as its proof, the solver fails on every witness, the structs are empty and
  every verifying key expects two public elements. An R1CS that is the triple of its
  counts reports them, and the call on any other value panics.
\<close>

definition assignment_witness :: "backend \<Rightarrow> nat list \<Rightarrow> error + nat list" where
  "assignment_witness b assignment = Inr assignment"

definition read_elements :: "backend \<Rightarrow> nat list \<Rightarrow> go_int \<Rightarrow> error + nat list" where
  "read_elements b r expectedSize =
     (if int (length r) < sint expectedSize then Inl (errorString ''unexpected EOF'')
      else Inr (take (nat (sint expectedSize)) r))"

definition reported_counts ::
  "(go_int \<times> go_int \<times> go_int) iface \<Rightarrow> (go_int \<times> go_int \<times> go_int) outcome" where
  "reported_counts r1cs =
     (case r1cs of
        Ptr b counts \<Rightarrow> Returns counts
      | Foreign \<Rightarrow> Panics ''invalid memory address or nil pointer dereference'')"

definition accepting_Verify :: "backend \<Rightarrow> unit \<Rightarrow> unit \<Rightarrow> nat list \<Rightarrow> error option outcome" where
  "accepting_Verify b proof' vk' w = Returns None"

definition echo_Prove ::
  "backend \<Rightarrow> 'cs \<Rightarrow> unit \<Rightarrow> nat list \<Rightarrow> bool \<Rightarrow> (nat list option \<times> error option) outcome" where
  "echo_Prove b r1cs' pk' w force' = Returns (Some w, None)"

definition failing_Solve :: "backend \<Rightarrow> unit \<Rightarrow> nat list \<Rightarrow> nat list \<times> error option" where
  "failing_Solve b r1cs' w = (w, Some (errorString ''unsatisfied constraint''))"

definition zero_unit :: "backend \<Rightarrow> unit" where
  "zero_unit b = ()"

definition public_size :: "backend \<Rightarrow> unit \<Rightarrow> go_int" where
  "public_size b vk' = 2"

definition echo_compute :: "backend \<Rightarrow> unit \<Rightarrow> unit \<Rightarrow> nat list \<Rightarrow> nat list" where
  "echo_compute b r1cs' pk' wireValues = wireValues"

section \<open>Package fields: the quadratic extension E2\<close>

text \<open>
  Modelled from the spec: the methods of \<open>frontend.API\<close> (package \<open>frontend\<close>, not among
  the sources verified here), by the value each gives its result in the scalar field of the
  circuit's curve, the integers modulo \<open>q\<close>. Section 4.2: \<open>Add\<close> is the sum, \<open>Sub\<close> the
  difference, \<open>Mul\<close> the product. A \<open>frontend.Variable\<close> is modelled by its value, and
  \<open>frontend.FromInterface\<close> turns a Go constant into the integer it denotes.

  Of the struct \<open>Extension\<close>, declared in another file of the package, the methods below
  use the field \<open>uSquare\<close> only.
\<close>

definition api_Add :: "int \<Rightarrow> int \<Rightarrow> int \<Rightarrow> int" where
  "api_Add q a b = (a + b) mod q"

definition api_Sub :: "int \<Rightarrow> int \<Rightarrow> int \<Rightarrow> int" where
  "api_Sub q a b = (a - b) mod q"

definition api_Mul :: "int \<Rightarrow> int \<Rightarrow> int \<Rightarrow> int" where
  "api_Mul q a b = (a * b) mod q"

definition FromInterface :: "int \<Rightarrow> int" where
  "FromInterface i = i"

record E2 =
  A0 :: int
  A1 :: int

record Extension =
  uSquare :: int

text \<open>
  \<open>Mul\<close> and \<open>Square\<close> overwrite both fields of their receiver and read their operands
  only before the first write, so the result does not depend on the receiver, also when
  it is one of the operands.
\<close>

definition E2_Mul :: "int \<Rightarrow> E2 \<Rightarrow> E2 \<Rightarrow> Extension \<Rightarrow> E2" where
  "E2_Mul q e1 e2 ext =
     (let l1 = api_Add q (A0 e1) (A1 e1);
          l2 = api_Add q (A0 e2) (A1 e2);
          u = api_Mul q l1 l2;
          ac = api_Mul q (A0 e1) (A0 e2);
          bd = api_Mul q (A1 e1) (A1 e2);
          l31 = api_Add q ac bd;
          l3 = api_Sub q u l31;
          e_A1 = api_Mul q l3 1;
          buSquare = FromInterface (uSquare ext);
          l41 = api_Mul q bd buSquare;
          l4 = api_Add q ac l41;
          e_A0 = api_Mul q l4 1
      in \<lparr>A0 = e_A0, A1 = e_A1\<rparr>)"

definition E2_Square :: "int \<Rightarrow> E2 \<Rightarrow> Extension \<Rightarrow> E2" where
  "E2_Square q x ext =
     (let c0 = api_Add q (A0 x) (A1 x);
          buSquare = FromInterface (uSquare ext);
          c2 = api_Mul q (A1 x) buSquare;
          c2 = api_Add q c2 (A0 x);
          c0 = api_Mul q c0 c2;
          c2 = api_Mul q (A0 x) (A1 x);
          c2 = api_Add q c2 c2;
          z_A1 = c2;
          c2 = api_Add q c2 c2;
          z_A0 = api_Add q c0 c2
      in \<lparr>A0 = z_A0, A1 = z_A1\<rparr>)"

text \<open>The modulus of the scalar field of BW6-761, over which the pairing circuit is compiled.\<close>

definition bw6_761_q :: int where
  "bw6_761_q = int (modulus bw6_761_fr)"

section \<open>Properties of the hints\<close>

subsection \<open>Fermat's little theorem for \<open>is_prime\<close>\<close>

lemma is_prime_coprime:
  assumes p: "is_prime p" and k: "0 < k" "k < p"
  shows "coprime k p"
proof (rule coprimeI)
  fix c assume c: "c dvd k" "c dvd p"
  from c(1) k have "c \<le> k" by (simp add: dvd_imp_le)
  with k have "c < p" by simp
  moreover from c(1) k have "c \<noteq> 0" by auto
  ultimately have "c = 1 \<or> c \<in> {2..<p}" by auto
  with p c(2) show "is_unit c" by (auto simp: is_prime_def)
qed

lemma is_prime_dvd_binomial:
  assumes p: "is_prime p" and k: "0 < k" "k < p"
  shows "p dvd (p choose k)"
proof -
  have "k * (p choose k) = p * ((p - 1) choose (k - 1))"
    using k by (simp add: times_binomial_minus1_eq)
  then have "p dvd k * (p choose k)" by simp
  moreover have "coprime p k" using is_prime_coprime[OF p k] by (simp add: coprime_commute)
  ultimately show ?thesis by (simp add: coprime_dvd_mult_right_iff)
qed

lemma power_Suc_mod_prime:
  fixes a :: nat
  assumes p: "is_prime p"
  shows "(a + 1) ^ p mod p = (a ^ p + 1) mod p"
proof -
  have p1: "1 < p" using p by (simp add: is_prime_def)
  have "(a + 1) ^ p = (\<Sum>k\<le>p. (p choose k) * a ^ k)"
    using binomial[of a 1 p] by simp
  also have "{..p} = insert 0 (insert p {1..<p})" using p1 by auto
  also have "(\<Sum>k\<in>insert 0 (insert p {1..<p}). (p choose k) * a ^ k)
      = 1 + a ^ p + (\<Sum>k\<in>{1..<p}. (p choose k) * a ^ k)"
    using p1 by simp
  finally have eq: "(a + 1) ^ p = (a ^ p + 1) + (\<Sum>k\<in>{1..<p}. (p choose k) * a ^ k)" by simp
  have "p dvd (\<Sum>k\<in>{1..<p}. (p choose k) * a ^ k)"
    by (rule dvd_sum) (simp add: is_prime_dvd_binomial[OF p])
  then show ?thesis unfolding eq by (metis dvd_def mod_mult_self2)
qed

lemma power_prime_mod:
  fixes a :: nat
  assumes p: "is_prime p"
  shows "a ^ p mod p = a mod p"
proof (induction a)
  case 0
  from p have "0 < p" by (simp add: is_prime_def)
  then show ?case by (simp add: power_0_left)
next
  case (Suc a)
  have "Suc a ^ p mod p = (a ^ p + 1) mod p" using power_Suc_mod_prime[OF p, of a] by simp
  also have "\<dots> = (a ^ p mod p + 1) mod p" by (simp add: mod_simps)
  also have "\<dots> = (a + 1) mod p" unfolding Suc.IH by (simp add: mod_simps)
  finally show ?case by simp
qed

lemma fermat_little:
  fixes a :: nat
  assumes p: "is_prime p" and a: "a mod p \<noteq> 0"
  shows "a ^ (p - 1) mod p = 1"
proof -
  have p1: "1 < p" using p by (simp add: is_prime_def)
  let ?r = "a mod p"
  have r: "0 < ?r" "?r < p" using a p1 by auto
  have cop: "coprime ?r p" by (rule is_prime_coprime[OF p r])
  have "?r ^ p mod p = ?r mod p" by (rule power_prime_mod[OF p])
  then have "(?r * ?r ^ (p - 1)) mod p = (?r * 1) mod p"
    using p1 by (metis One_nat_def Suc_pred less_imp_Suc_add mult.right_neutral power_Suc zero_less_Suc)
  then have "p dvd ?r * ?r ^ (p - 1) - ?r * 1"
    by (metis mod_eq_dvd_iff_nat mult.right_neutral One_nat_def le_refl diff_is_0_eq nat_le_linear)
  then have "p dvd ?r * (?r ^ (p - 1) - 1)" by (simp add: right_diff_distrib')
  then have "p dvd ?r ^ (p - 1) - 1"
    using cop by (simp add: coprime_dvd_mult_right_iff coprime_commute)
  moreover have "0 < ?r ^ (p - 1)" using r by simp
  ultimately have "?r ^ (p - 1) mod p = 1 mod p"
    by (metis mod_eq_dvd_iff_nat One_nat_def Suc_leI)
  then show ?thesis using p1 by (simp add: power_mod)
qed

subsection \<open>Montgomery form\<close>

lemma valid_fr_gt1: "valid_fr F \<Longrightarrow> 1 < modulus F"
  by (simp add: valid_fr_def is_prime_def)

lemma FromMont_less: "0 < modulus F \<Longrightarrow> FromMont F z < modulus F"
  by (simp add: FromMont_def)

lemma FromMont_One: "(rMont * rInverse F) mod modulus F = 1 \<Longrightarrow> FromMont F (One F) = 1"
  by (simp add: FromMont_def One_def mod_simps)

lemma FromMont_zero: "FromMont F 0 = 0"
  by (simp add: FromMont_def)

lemma FromMont_ToMont:
  assumes "(rMont * rInverse F) mod modulus F = 1"
  shows "FromMont F (ToMont F v) = v mod modulus F"
proof -
  have "FromMont F (ToMont F v) = (v * (rMont * rInverse F)) mod modulus F"
    by (simp add: FromMont_def ToMont_def mod_simps mult.assoc)
  also have "\<dots> = (v * ((rMont * rInverse F) mod modulus F)) mod modulus F"
    by (simp add: mod_simps)
  also have "\<dots> = v mod modulus F" using assms by simp
  finally show ?thesis .
qed

text \<open>
  The constants of BW6-761 and of a field of 11 elements, checked from the quotient of
  the division rather than by evaluating \<open>mod\<close> on the large numerals.
\<close>

lemma mod_cert:
  fixes a :: nat
  assumes "a = k * q + r" and "r < q"
  shows "a mod q = r"
  using assms by simp

lemma bw6_761_modulus: "1 < modulus bw6_761_fr" "modulus bw6_761_fr < rMont"
  "rInverse bw6_761_fr < modulus bw6_761_fr" "1 < rInverse bw6_761_fr"
  "2 ^ 64 < modulus bw6_761_fr"
  by (simp_all add: bw6_761_fr_def rMont_def)

lemma bw6_761_rInverse: "(rMont * rInverse bw6_761_fr) mod modulus bw6_761_fr = 1"
proof -
  have "rMont * rInverse bw6_761_fr = 29496869032736653100683447689715864783909294504611102227839586092113932643754048458779746488862010077557953021345791 * modulus bw6_761_fr + 1"
    by (simp add: rMont_def bw6_761_fr_def)
  then show ?thesis using bw6_761_modulus(1) by (rule mod_cert)
qed

lemma bw6_761_One: "FromMont bw6_761_fr (One bw6_761_fr) = 1"
  "One bw6_761_fr \<noteq> 0" "One bw6_761_fr \<noteq> 1"
proof -
  show 1: "FromMont bw6_761_fr (One bw6_761_fr) = 1"
    by (rule FromMont_One[OF bw6_761_rInverse])
  show "One bw6_761_fr \<noteq> 0"
  proof
    assume "One bw6_761_fr = 0"
    with 1 have "FromMont bw6_761_fr 0 = 1" by simp
    then show False by (simp add: FromMont_zero)
  qed
  have r: "FromMont bw6_761_fr 1 = rInverse bw6_761_fr"
    using bw6_761_modulus(3) by (simp add: FromMont_def)
  show "One bw6_761_fr \<noteq> 1"
  proof
    assume "One bw6_761_fr = 1"
    with 1 r have "rInverse bw6_761_fr = 1" by simp
    with bw6_761_modulus(4) show False by simp
  qed
qed

lemma is_prime_11: "is_prime 11"
proof -
  have "\<not> d dvd 11" if "d \<in> {2..<11}" for d :: nat
  proof -
    from that have "d \<in> {2, 3, 4, 5, 6, 7, 8, 9, 10}" by auto
    then show ?thesis by auto
  qed
  then show ?thesis by (simp add: is_prime_def)
qed

lemma rMont_mod_11: "(rMont * 9) mod 11 = 1" "rMont mod 11 = 5"
proof -
  have "rMont * 9 = 32238005069777301173682850991026593113247059403108092728321330967110135994861354136611672390360385524296331992069213 * 11 + 1"
    by (simp add: rMont_def)
  then show "(rMont * 9) mod 11 = 1" by (rule mod_cert) simp
  have "rMont = 3582000563308589019298094554558510345916339933678676969813481218567792888317928237401296932262265058255147999118801 * 11 + 5"
    by (simp add: rMont_def)
  then show "rMont mod 11 = 5" by (rule mod_cert) simp
qed

lemma valid_fr_11: "valid_fr \<lparr>modulus = 11, rInverse = 9\<rparr>"
  using rMont_mod_11(1) by (simp add: valid_fr_def is_prime_11) (simp add: rMont_def)

subsection \<open>Limbs\<close>

lemma limb_zero_iff:
  "limb z j = 0 \<longleftrightarrow> z mod 2 ^ (64 * Suc j) < 2 ^ (64 * j)"
proof -
  have "limb z j = (z mod 2 ^ (64 * j + 64)) div 2 ^ (64 * j)"
    unfolding limb_def by (simp only: div_exp_mod_exp_eq)
  moreover have "64 * Suc j = 64 * j + 64" by simp
  ultimately show ?thesis by (simp only: div_eq_0_iff) simp
qed

lemma limb_high_zero: "z < 2 ^ (64 * j) \<Longrightarrow> limb z j = 0"
  by (simp add: limb_def)

lemma limb_0_small: "z < 2 ^ 64 \<Longrightarrow> limb z 0 = z"
  by (simp add: limb_def)

lemma IsUint64_iff:
  assumes z: "z < 2 ^ 384"
  shows "IsUint64 z \<longleftrightarrow> z < 2 ^ 64"
proof
  assume "z < 2 ^ 64"
  then show "IsUint64 z"
    using limb_high_zero[of z 1] limb_high_zero[of z 2] limb_high_zero[of z 3]
      limb_high_zero[of z 4] limb_high_zero[of z 5]
    by (simp add: IsUint64_def)
next
  assume u: "IsUint64 z"
  have s5: "z < 2 ^ 320" using u z by (simp add: IsUint64_def limb_zero_iff)
  have s4: "z < 2 ^ 256" using u s5 by (simp add: IsUint64_def limb_zero_iff)
  have s3: "z < 2 ^ 192" using u s4 by (simp add: IsUint64_def limb_zero_iff)
  have s2: "z < 2 ^ 128" using u s3 by (simp add: IsUint64_def limb_zero_iff)
  show "z < 2 ^ 64" using u s2 by (simp add: IsUint64_def limb_zero_iff)
qed

lemma Bit_eq:
  assumes z: "z < 2 ^ 384"
  shows "Bit z i = (if bit z i then 1 else 0)"
proof (cases "i div 64 \<ge> 6")
  case True
  then have "384 \<le> i" by simp
  then have "(2::nat) ^ 384 \<le> 2 ^ i" by (intro power_increasing) auto
  with z have "z div 2 ^ i = 0" by simp
  then have "\<not> bit z i" by (simp add: bit_iff_odd)
  with True show ?thesis by (simp add: Bit_def)
next
  case False
  let ?j = "i div 64" and ?r = "i mod 64"
  have i: "i = 64 * ?j + ?r" by simp
  have "limb z ?j div 2 ^ ?r mod 2 = drop_bit ?r (take_bit 64 (drop_bit (64 * ?j) z)) mod 2"
    by (simp add: limb_def drop_bit_eq_div take_bit_eq_mod)
  also have "\<dots> = (if bit (take_bit 64 (drop_bit (64 * ?j) z)) ?r then 1 else 0)"
    by (simp add: bit_iff_odd_drop_bit mod_2_eq_odd)
  also have "bit (take_bit 64 (drop_bit (64 * ?j) z)) ?r \<longleftrightarrow> bit z (64 * ?j + ?r)"
    by (simp add: bit_take_bit_iff bit_drop_bit_eq add.commute)
  finally show ?thesis using False i by (simp add: Bit_def)
qed

subsection \<open>The value of powModulusMinusOne\<close>

text \<open>
  C1. The hint is documented to return \<open>m = a^(modulus-1) - 1\<close>, but its last step is
  \<open>v.Sub(&one, &v)\<close>, which subtracts the power from one. In the scalar field of BW6-761
  the hint applied to \<open>[0]\<close> returns \<open>fr.One()\<close>, the element of value 1, which is not the
  zero element; the documented formula gives \<open>0 - 1\<close> there.
\<close>

theorem powModulusMinusOne_zero_counterexample:
  "fst (powModulusMinusOne bw6_761_fr [0]) = Inr (One bw6_761_fr)
   \<and> FromMont bw6_761_fr (One bw6_761_fr) = 1 \<and> One bw6_761_fr \<noteq> 0"
proof -
  have "Exp bw6_761_fr 0 (qMinusOne bw6_761_fr) = 0"
    using bw6_761_modulus(1)
    by (simp add: Exp_def qMinusOne_def ToMont_def FromMont_def power_0_left)
  then have "fst (powModulusMinusOne bw6_761_fr [0]) = Inr (One bw6_761_fr)"
    by (simp add: powModulusMinusOne_def Sub_def)
  with bw6_761_One(1,2) show ?thesis by simp
qed

text \<open>
  What the code computes on a reduced element \<open>x\<close> of a prime field: the element one when
  \<open>x\<close> is zero and the zero element otherwise.
\<close>

lemma powModulusMinusOne_computes:
  assumes v: "valid_fr F" and x: "x < modulus F"
  shows "fst (powModulusMinusOne F [x]) = Inr (if x = 0 then One F else 0)"
proof -
  let ?q = "modulus F"
  have q1: "1 < ?q" using v by (rule valid_fr_gt1)
  have r: "(rMont * rInverse F) mod ?q = 1" using v by (simp add: valid_fr_def)
  have x0: "FromMont F x = 0 \<longleftrightarrow> x = 0"
  proof
    assume "FromMont F x = 0"
    then have "ToMont F (FromMont F x) = 0" by (simp add: ToMont_def)
    moreover have "ToMont F (FromMont F x) = (x * (rMont * rInverse F)) mod ?q"
      by (simp add: FromMont_def ToMont_def mod_simps mult.assoc mult.left_commute mult.commute)
    moreover have "(x * (rMont * rInverse F)) mod ?q = (x * ((rMont * rInverse F) mod ?q)) mod ?q"
      by (simp add: mod_simps)
    ultimately show "x = 0" using r x by simp
  qed (simp add: FromMont_zero)
  show ?thesis
  proof (cases "FromMont F x = 0")
    case True
    have "Exp F x (qMinusOne F) = 0"
      using q1 True by (simp add: Exp_def qMinusOne_def ToMont_def power_0_left)
    then show ?thesis using True x0 by (simp add: powModulusMinusOne_def Sub_def)
  next
    case False
    have "FromMont F x mod ?q = FromMont F x" using q1 by (simp add: FromMont_def)
    with False have "FromMont F x ^ (?q - 1) mod ?q = 1"
      using v fermat_little[of ?q "FromMont F x"] by (simp add: valid_fr_def)
    then have "Exp F x (qMinusOne F) = One F"
      by (simp add: Exp_def qMinusOne_def ToMont_def One_def)
    then show ?thesis using False x0 by (simp add: powModulusMinusOne_def Sub_def)
  qed
qed

subsection \<open>What the hints do to their inputs\<close>

text \<open>
  C5, as stated, fails for \<open>ithBit\<close>: \<open>inputs[0].FromMont()\<close> and \<open>inputs[1].FromMont()\<close>
  convert the caller's elements in place. Called on \<open>[fr.One(), 0]\<close> in the scalar field of
  BW6-761, it leaves \<open>[1, 0]\<close> in the slice: the first element no longer holds the limbs
  of \<open>fr.One()\<close>.
\<close>

theorem ithBit_mutates_inputs_counterexample:
  "snd (ithBit bw6_761_fr [One bw6_761_fr, 0]) = [1, 0] \<and> One bw6_761_fr \<noteq> 1"
proof -
  have "snd (ithBit bw6_761_fr [One bw6_761_fr, 0])
          = [FromMont bw6_761_fr (One bw6_761_fr), FromMont bw6_761_fr 0]"
    by (simp add: ithBit_def Let_def)
  with bw6_761_One(1,3) show ?thesis by (simp add: FromMont_zero)
qed

lemma ithBit_fst:
  "fst (ithBit F inputs) =
     (if length inputs \<noteq> 2
      then Inl (errorString
              ''ithBit expects 2 inputs; inputs[0] == value, inputs[1] == bit position'')
      else if \<not> IsUint64 (FromMont F (inputs ! 1))
      then Inl (errorString ''ithBit expects bit position (input[1]) to fit on one word'')
      else if Bit (FromMont F (inputs ! 0)) (limb (FromMont F (inputs ! 1)) 0) = 0
      then Inr 0 else Inr (One F))"
  by (simp add: ithBit_def Let_def)

lemma ithBit_snd:
  "snd (ithBit F inputs) = (if length inputs = 2 then map (FromMont F) inputs else inputs)"
proof (cases "length inputs = 2")
  case True
  then obtain a n where "inputs = [a, n]"
    by (cases inputs; cases "tl inputs") auto
  then show ?thesis by (simp add: ithBit_def Let_def)
next
  case False
  then show ?thesis by (simp add: ithBit_def)
qed

text \<open>
  C5, amended: \<open>powModulusMinusOne\<close> leaves every element of its input list unchanged.
  \<open>ithBit\<close> leaves the list unchanged when it does not hold two elements, and otherwise
  replaces both elements by their regular (non-Montgomery) form. The value either hint
  returns depends only on the length of the list and the field values of its elements.
\<close>

theorem hints_frame:
  "snd (powModulusMinusOne F inputs) = inputs
   \<and> snd (ithBit F inputs) = (if length inputs = 2 then map (FromMont F) inputs else inputs)
   \<and> (map (FromMont F) inputs = map (FromMont F) inputs' \<longrightarrow>
        fst (powModulusMinusOne F inputs) = fst (powModulusMinusOne F inputs')
        \<and> fst (ithBit F inputs) = fst (ithBit F inputs'))"
proof -
  have 1: "snd (powModulusMinusOne F inputs) = inputs"
    by (simp add: powModulusMinusOne_def Let_def)
  have 3: "fst (powModulusMinusOne F inputs) = fst (powModulusMinusOne F inputs')
        \<and> fst (ithBit F inputs) = fst (ithBit F inputs')"
    if eq: "map (FromMont F) inputs = map (FromMont F) inputs'"
  proof -
    from eq have len: "length inputs = length inputs'"
      by (metis length_map)
    have nth: "FromMont F (inputs ! i) = FromMont F (inputs' ! i)" if "i < length inputs" for i
      using that eq len by (metis nth_map)
    have a: "fst (powModulusMinusOne F inputs) = fst (powModulusMinusOne F inputs')"
    proof (cases "length inputs = 1")
      case True
      with nth[of 0] have "FromMont F (inputs ! 0) = FromMont F (inputs' ! 0)" by simp
      with True len show ?thesis by (simp add: powModulusMinusOne_def Let_def Exp_def)
    next
      case False
      with len show ?thesis by (simp add: powModulusMinusOne_def)
    qed
    have b: "fst (ithBit F inputs) = fst (ithBit F inputs')"
    proof (cases "length inputs = 2")
      case True
      with nth[of 0] nth[of 1] have "FromMont F (inputs ! 0) = FromMont F (inputs' ! 0)"
        "FromMont F (inputs ! 1) = FromMont F (inputs' ! 1)" by simp_all
      with True len show ?thesis by (simp add: ithBit_fst)
    next
      case False
      with len show ?thesis by (simp add: ithBit_fst)
    qed
    from a b show ?thesis ..
  qed
  from 1 ithBit_snd 3 show ?thesis by blast
qed

theorem hints_frame_witness:
  "snd (powModulusMinusOne \<lparr>modulus = 11, rInverse = 9\<rparr> [3]) = [3]
   \<and> snd (ithBit \<lparr>modulus = 11, rInverse = 9\<rparr> [3, 10]) = [5, 2]
   \<and> map (FromMont \<lparr>modulus = 11, rInverse = 9\<rparr>) [3, 10] = map (FromMont \<lparr>modulus = 11, rInverse = 9\<rparr>) [14, 21]
   \<and> fst (ithBit \<lparr>modulus = 11, rInverse = 9\<rparr> [3, 10]) = fst (ithBit \<lparr>modulus = 11, rInverse = 9\<rparr> [14, 21])"
  using hints_frame[of "\<lparr>modulus = 11, rInverse = 9\<rparr>" "[3]" "[3]"]
    hints_frame[of "\<lparr>modulus = 11, rInverse = 9\<rparr>" "[3, 10]" "[14, 21]"]
  by (simp add: FromMont_def)

subsection \<open>The value of ithBit\<close>

text \<open>
  C6. \<open>ithBit\<close> returns an error exactly when its input list does not have two elements or
  the bit position, the integer the second input represents, does not fit in one 64-bit
  word. Otherwise, for inputs \<open>[a, n]\<close>, it returns bit \<open>n\<close> of the integer that \<open>a\<close>
  represents, as a field element: \<open>fr.One()\<close>, which is reduced, is not the zero element
  and has the value 1, when the bit is set, and the zero element, of value 0, when it is
  not. The constants of the field are those of a Montgomery form: the modulus is at most
  \<open>R\<close> and \<open>rInverse\<close> inverts \<open>R\<close> modulo it.
\<close>

theorem ithBit_spec:
  assumes q: "modulus F \<le> rMont" and r: "(rMont * rInverse F) mod modulus F = 1"
  shows "(isl (fst (ithBit F inputs)) \<longleftrightarrow>
            \<not> (length inputs = 2 \<and> FromMont F (inputs ! 1) < 2 ^ 64))
         \<and> (FromMont F n < 2 ^ 64 \<longrightarrow>
              fst (ithBit F [a, n]) =
                Inr (if bit (FromMont F a) (FromMont F n) then One F else 0))
         \<and> FromMont F (One F) = 1 \<and> FromMont F 0 = 0
         \<and> One F \<noteq> 0 \<and> One F < modulus F"
proof -
  have q0: "0 < modulus F"
  proof (rule ccontr)
    assume "\<not> 0 < modulus F"
    with r have "rMont * rInverse F = 1" by simp
    then show False by (simp add: rMont_def)
  qed
  have lt: "FromMont F z < 2 ^ 384" for z
    using FromMont_less[OF q0, of z] q by (simp add: rMont_def)
  have e: "isl (fst (ithBit F inputs)) \<longleftrightarrow>
            \<not> (length inputs = 2 \<and> FromMont F (inputs ! 1) < 2 ^ 64)"
    by (simp add: ithBit_fst IsUint64_iff[OF lt])
  have b: "fst (ithBit F [a, n]) =
                Inr (if bit (FromMont F a) (FromMont F n) then One F else 0)"
    if "FromMont F n < 2 ^ 64"
    using that by (simp add: ithBit_fst IsUint64_iff[OF lt] Bit_eq[OF lt] limb_0_small)
  have one: "FromMont F (One F) = 1" by (rule FromMont_One[OF r])
  have zero: "FromMont F 0 = 0" by (rule FromMont_zero)
  have nz: "One F \<noteq> 0"
  proof
    assume "One F = 0"
    with one zero show False by simp
  qed
  have red: "One F < modulus F" using q0 by (simp add: One_def)
  from e b one zero nz red show ?thesis by blast
qed

theorem ithBit_spec_witness:
  "modulus bw6_761_fr \<le> rMont
   \<and> (rMont * rInverse bw6_761_fr) mod modulus bw6_761_fr = 1
   \<and> FromMont bw6_761_fr (ToMont bw6_761_fr 5) = 5
   \<and> FromMont bw6_761_fr (ToMont bw6_761_fr 2) = 2
   \<and> FromMont bw6_761_fr (ToMont bw6_761_fr 1) = 1
   \<and> FromMont bw6_761_fr (ToMont bw6_761_fr (2 ^ 64)) = 2 ^ 64
   \<and> fst (ithBit bw6_761_fr [ToMont bw6_761_fr 5, ToMont bw6_761_fr 2]) = Inr (One bw6_761_fr)
   \<and> fst (ithBit bw6_761_fr [ToMont bw6_761_fr 5, ToMont bw6_761_fr 1]) = Inr 0
   \<and> isl (fst (ithBit bw6_761_fr [ToMont bw6_761_fr 5, ToMont bw6_761_fr (2 ^ 64)]))
   \<and> FromMont bw6_761_fr (One bw6_761_fr) = 1
   \<and> One bw6_761_fr \<noteq> 0"
proof -
  have q: "modulus bw6_761_fr \<le> rMont"
    using bw6_761_modulus(2) by simp
  note r = bw6_761_rInverse
  have small: "v mod modulus bw6_761_fr = v" if "v \<le> 2 ^ 64" for v :: nat
    using that bw6_761_modulus(5) by simp
  have v: "FromMont bw6_761_fr (ToMont bw6_761_fr 5) = 5"
     "FromMont bw6_761_fr (ToMont bw6_761_fr 2) = 2"
     "FromMont bw6_761_fr (ToMont bw6_761_fr 1) = 1"
     "FromMont bw6_761_fr (ToMont bw6_761_fr (2 ^ 64)) = 2 ^ 64"
    using small[of 5] small[of 2] small[of 1] small[of "2 ^ 64"]
    by (simp_all add: FromMont_ToMont[OF bw6_761_rInverse])
  have b: "bit (5::nat) 2" "\<not> bit (5::nat) 1" by (simp_all add: bit_iff_odd)
  have t1: "fst (ithBit bw6_761_fr [ToMont bw6_761_fr 5, ToMont bw6_761_fr 2])
              = Inr (One bw6_761_fr)"
    using ithBit_spec[OF q r, where n = "ToMont bw6_761_fr 2" and a = "ToMont bw6_761_fr 5"]
    by (simp only: v b) simp
  have t2: "fst (ithBit bw6_761_fr [ToMont bw6_761_fr 5, ToMont bw6_761_fr 1]) = Inr 0"
    using ithBit_spec[OF q r, where n = "ToMont bw6_761_fr 1" and a = "ToMont bw6_761_fr 5"]
    by (simp only: v b) simp
  have t3: "isl (fst (ithBit bw6_761_fr [ToMont bw6_761_fr 5, ToMont bw6_761_fr (2 ^ 64)]))"
  proof -
    have "\<not> FromMont bw6_761_fr (ToMont bw6_761_fr (2 ^ 64)) < 2 ^ 64"
      by (simp only: v(4))
    then show ?thesis
      using ithBit_spec[OF q r, of "[ToMont bw6_761_fr 5, ToMont bw6_761_fr (2 ^ 64)]"]
      by simp
  qed
  have t4: "FromMont bw6_761_fr (One bw6_761_fr) = 1" "One bw6_761_fr \<noteq> 0"
    using ithBit_spec[OF q r] by blast+
  from q r v t1 t2 t3 t4 show ?thesis by (intro conjI)
qed

section \<open>Properties of the curve dispatch\<close>

lemma assert_type_same: "assert_type b (Ptr b x) = Returns x"
  by (simp add: assert_type_def)

lemma assert_type_other: "b' \<noteq> b \<Longrightarrow> assert_type b (Ptr b' x) = Panics ''interface conversion''"
  by (simp add: assert_type_def)

subsection \<open>Mixing curves\<close>

text \<open>
  C2, as stated, fails: a proof of BLS12-377 verified against a verifying key of BN254,
  with a public witness that converts, does not return an error value. The type
  assertion \<open>vk.(*groth16_bls377.VerifyingKey)\<close> panics.
\<close>

theorem Verify_curve_mismatch_counterexample:
  "Verify assignment_witness accepting_Verify (Ptr bls377 ()) (Ptr bn256 ()) [1]
     = Panics ''interface conversion''"
  by (simp add: Verify_def assignment_witness_def assert_type_def)

text \<open>
  C2, amended: the dispatch has no curve-mismatch error. For a proof of one backend and a
  verifying key of another, \<open>Verify\<close> never reaches the verifier: it returns the error of
  the public-witness conversion when that fails and otherwise panics on the type
  assertion. \<open>Prove\<close> does the same for an R1CS of one backend and a proving key of
  another.
\<close>

theorem curve_mismatch:
  assumes "b' \<noteq> b"
  shows "Verify FromPublicAssignment groth16_Verify (Ptr b proof') (Ptr b' vk') publicWitness =
           (case FromPublicAssignment b publicWitness of
              Inl err \<Rightarrow> Returns (Some err)
            | Inr w \<Rightarrow> Panics ''interface conversion'')
       \<and> Prove FromFullAssignment groth16_Prove (Ptr b r1cs') (Ptr b' pk') witness force =
           (case FromFullAssignment b witness of
              Inl err \<Rightarrow> Returns (None, Some err)
            | Inr w \<Rightarrow> Panics ''interface conversion'')"
  using assms
  by (simp add: Verify_def Prove_def assert_type_other split: sum.splits)

theorem curve_mismatch_witness:
  "bn256 \<noteq> bls377
   \<and> Verify assignment_witness accepting_Verify (Ptr bls377 ()) (Ptr bn256 ()) [1]
       = Panics ''interface conversion''
   \<and> Prove assignment_witness echo_Prove (Ptr bls377 ()) (Ptr bn256 ()) [1, 2] [True]
       = Panics ''interface conversion''"
  using curve_mismatch[of bn256 bls377 assignment_witness accepting_Verify "()" "()" "[1]"
      assignment_witness echo_Prove "()" "()" "[1, 2]" "[True]"]
  by (simp add: assignment_witness_def)

subsection \<open>The force flag\<close>

text \<open>
  C3. In \<open>Prove\<close>, omitting \<open>force\<close> is passing \<open>false\<close>. For an R1CS and a proving key of
  the same backend and an assignment that converts, the per-curve prover is called with
  the flag given. With the per-curve prover of the spec and a witness that fails to solve:
  under \<open>force = true\<close> the cryptographic steps run and a proof is returned without error;
  under \<open>force = false\<close>, or with no flag, the solver's error is returned and no proof.
\<close>

theorem Prove_force:
  "Prove FromFullAssignment groth16_Prove r1cs pk witness []
     = Prove FromFullAssignment groth16_Prove r1cs pk witness [False]
   \<and> (FromFullAssignment b witness = Inr w \<longrightarrow>
        Prove FromFullAssignment groth16_Prove (Ptr b r1cs') (Ptr b pk') witness (f # fs)
          = as_Proof b (groth16_Prove b r1cs' pk' w f))
   \<and> (FromFullAssignment b witness = Inr w \<and> Solve b r1cs' w = (wireValues, Some err) \<longrightarrow>
        Prove FromFullAssignment (curve_Prove Solve compute) (Ptr b r1cs') (Ptr b pk') witness [True]
          = Returns (Some (Ptr b (compute b r1cs' pk' wireValues)), None)
        \<and> Prove FromFullAssignment (curve_Prove Solve compute) (Ptr b r1cs') (Ptr b pk') witness [False]
          = Returns (None, Some err)
        \<and> Prove FromFullAssignment (curve_Prove Solve compute) (Ptr b r1cs') (Ptr b pk') witness []
          = Returns (None, Some err))"
  by (simp add: Prove_def force_flag_def assert_type_same as_Proof_def curve_Prove_def)

theorem Prove_force_witness:
  "assignment_witness bw761 [3, 4] = Inr [3, 4]
   \<and> failing_Solve bw761 () [3, 4] = ([3, 4], Some (errorString ''unsatisfied constraint''))
   \<and> Prove assignment_witness (curve_Prove failing_Solve echo_compute)
         (Ptr bw761 ()) (Ptr bw761 ()) [3, 4] [True]
       = Returns (Some (Ptr bw761 [3, 4]), None)
   \<and> Prove assignment_witness (curve_Prove failing_Solve echo_compute)
         (Ptr bw761 ()) (Ptr bw761 ()) [3, 4] [False]
       = Returns (None, Some (errorString ''unsatisfied constraint''))
   \<and> Prove assignment_witness (curve_Prove failing_Solve echo_compute)
         (Ptr bw761 ()) (Ptr bw761 ()) [3, 4] []
       = Returns (None, Some (errorString ''unsatisfied constraint''))"
proof -
  have a: "assignment_witness bw761 [3, 4] = Inr [3, 4]"
    by (simp add: assignment_witness_def)
  have s: "failing_Solve bw761 () [3, 4] = ([3, 4], Some (errorString ''unsatisfied constraint''))"
    by (simp add: failing_Solve_def)
  have e: "echo_compute bw761 () () [3, 4] = [3, 4]"
    by (simp add: echo_compute_def)
  from a s
    Prove_force[of assignment_witness "curve_Prove failing_Solve echo_compute" "Ptr bw761 ()"
      "Ptr bw761 ()" "[3, 4]" bw761 "[3, 4]" "()" "()" True "[]" failing_Solve "[3, 4]"
      "errorString ''unsatisfied constraint''" echo_compute, unfolded e]
  show ?thesis by blast
qed

subsection \<open>The constructors\<close>

lemma ID_distinct:
  "BN254 \<noteq> BLS12_377" "BN254 \<noteq> BLS12_381" "BN254 \<noteq> BW6_761"
  "BLS12_377 \<noteq> BLS12_381" "BLS12_377 \<noteq> BW6_761" "BLS12_381 \<noteq> BW6_761"
  "BLS12_377 \<noteq> BN254" "BLS12_381 \<noteq> BN254" "BW6_761 \<noteq> BN254"
  "BLS12_381 \<noteq> BLS12_377" "BW6_761 \<noteq> BLS12_377" "BW6_761 \<noteq> BLS12_381"
  by (simp_all add: BN254_def BLS12_377_def BLS12_381_def BW6_761_def)

text \<open>
  C4. \<open>NewProvingKey\<close>, \<open>NewVerifyingKey\<close>, \<open>NewProof\<close> and \<open>NewCS\<close> return an object of
  the matching backend for each of \<open>BN254\<close>, \<open>BLS12_377\<close>, \<open>BLS12_381\<close> and \<open>BW6_761\<close>,
  and for every other identifier they panic with "not implemented" and return nothing;
  that is their only panic.
\<close>

theorem constructors_dispatch:
  "NewProvingKey zpk BN254 = Returns (Ptr bn256 (zpk bn256))
   \<and> NewProvingKey zpk BLS12_377 = Returns (Ptr bls377 (zpk bls377))
   \<and> NewProvingKey zpk BLS12_381 = Returns (Ptr bls381 (zpk bls381))
   \<and> NewProvingKey zpk BW6_761 = Returns (Ptr bw761 (zpk bw761))
   \<and> NewVerifyingKey zvk BN254 = Returns (Ptr bn256 (zvk bn256))
   \<and> NewVerifyingKey zvk BLS12_377 = Returns (Ptr bls377 (zvk bls377))
   \<and> NewVerifyingKey zvk BLS12_381 = Returns (Ptr bls381 (zvk bls381))
   \<and> NewVerifyingKey zvk BW6_761 = Returns (Ptr bw761 (zvk bw761))
   \<and> NewProof zpr BN254 = Returns (Ptr bn256 (zpr bn256))
   \<and> NewProof zpr BLS12_377 = Returns (Ptr bls377 (zpr bls377))
   \<and> NewProof zpr BLS12_381 = Returns (Ptr bls381 (zpr bls381))
   \<and> NewProof zpr BW6_761 = Returns (Ptr bw761 (zpr bw761))
   \<and> NewCS zcs BN254 = Returns (Ptr bn256 (zcs bn256))
   \<and> NewCS zcs BLS12_377 = Returns (Ptr bls377 (zcs bls377))
   \<and> NewCS zcs BLS12_381 = Returns (Ptr bls381 (zcs bls381))
   \<and> NewCS zcs BW6_761 = Returns (Ptr bw761 (zcs bw761))
   \<and> (curveID \<notin> {BN254, BLS12_377, BLS12_381, BW6_761} \<longrightarrow>
        NewProvingKey zpk curveID = Panics ''not implemented''
        \<and> NewVerifyingKey zvk curveID = Panics ''not implemented''
        \<and> NewProof zpr curveID = Panics ''not implemented''
        \<and> NewCS zcs curveID = Panics ''not implemented'')"
  by (simp add: NewProvingKey_def NewVerifyingKey_def NewProof_def NewCS_def ID_distinct)

theorem constructors_dispatch_witness:
  "UNKNOWN \<notin> {BN254, BLS12_377, BLS12_381, BW6_761}
   \<and> NewProvingKey zero_unit UNKNOWN = Panics ''not implemented''
   \<and> NewVerifyingKey zero_unit UNKNOWN = Panics ''not implemented''
   \<and> NewProof zero_unit UNKNOWN = Panics ''not implemented''
   \<and> NewCS zero_unit UNKNOWN = Panics ''not implemented''
   \<and> NewCS zero_unit BW6_761 = Returns (Ptr bw761 ())"
proof -
  have u: "UNKNOWN \<notin> {BN254, BLS12_377, BLS12_381, BW6_761}"
    by (simp add: UNKNOWN_def BN254_def BLS12_377_def BLS12_381_def BW6_761_def)
  from u constructors_dispatch[of zero_unit zero_unit zero_unit zero_unit UNKNOWN]
  show ?thesis by (simp add: zero_unit_def)
qed

subsection \<open>The size of the witness read\<close>

lemma sint_expectedSize:
  fixes nbSecret nbPublic :: go_int
  assumes p: "sint nbPublic = publicWires + 1" and s: "sint nbSecret = secretWires"
    and r: "0 \<le> publicWires" "0 \<le> secretWires" "publicWires + secretWires < 2 ^ 63"
  shows "sint (nbSecret + nbPublic - 1) = publicWires + secretWires"
proof -
  define k where "k = publicWires + secretWires"
  have "nbSecret = word_of_int (sint nbSecret)" "nbPublic = word_of_int (sint nbPublic)"
    by simp_all
  then have "nbSecret = word_of_int secretWires" "nbPublic = word_of_int (publicWires + 1)"
    unfolding p s .
  then have w: "nbSecret + nbPublic - 1 = (word_of_int k :: go_int)"
    by (simp add: k_def add.commute)
  have k: "- (2 ^ 63) \<le> k" "k < 2 ^ 63" using r by (simp_all add: k_def)
  have "sint (word_of_int k :: go_int) = signed_take_bit 63 k"
    by (simp add: signed_of_int)
  also have "\<dots> = k" using k by (rule signed_take_bit_int_eq_self)
  finally show ?thesis unfolding w k_def .
qed

text \<open>
  C7. \<open>ReadAndProve\<close> asks \<open>LimitReadFrom\<close> for \<open>nbSecret + nbPublic - 1\<close> elements, where
  \<open>nbSecret\<close> and \<open>nbPublic\<close> are the counts \<open>GetNbVariables\<close> reports. The reported public
  count includes the constant-one wire, which is why the code subtracts one; so for an
  R1CS with \<open>publicWires\<close> public and \<open>secretWires\<close> secret wires, whose sum fits in an
  \<open>int\<close>, the number of elements asked for is \<open>publicWires + secretWires\<close>, one per public
  and secret wire. \<open>ReadAndVerify\<close> asks for the \<open>SizePublicWitness()\<close> elements of the
  verifying key.
\<close>

theorem read_sizes:
  assumes "GetNbVariables (Ptr b r1cs') = Returns (nbInternal, nbSecret, nbPublic)"
    and "sint nbPublic = publicWires + 1" and "sint nbSecret = secretWires"
    and "0 \<le> publicWires" and "0 \<le> secretWires" and "publicWires + secretWires < 2 ^ 63"
  shows "sint (nbSecret + nbPublic - 1) = publicWires + secretWires
       \<and> ReadAndProve GetNbVariables LimitReadFrom groth16_Prove (Ptr b r1cs') pk witness force =
           (case LimitReadFrom b witness (nbSecret + nbPublic - 1) of
              Inl err \<Rightarrow> Returns (None, Some err)
            | Inr w \<Rightarrow>
                (case assert_type b pk of
                   Panics m \<Rightarrow> Panics m
                 | Returns pk' \<Rightarrow> as_Proof b (groth16_Prove b r1cs' pk' w (force_flag force))))
       \<and> ReadAndVerify SizePublicWitness LimitReadFrom' groth16_Verify proof (Ptr b vk') publicWitness =
           (case LimitReadFrom' b publicWitness (SizePublicWitness b vk') of
              Inl err \<Rightarrow> Returns (Some err)
            | Inr w \<Rightarrow>
                (case assert_type b proof of
                   Panics m \<Rightarrow> Panics m
                 | Returns proof' \<Rightarrow> groth16_Verify b proof' vk' w))"
  using assms sint_expectedSize[of nbPublic publicWires nbSecret secretWires]
  by (simp add: ReadAndProve_def ReadAndVerify_def)

theorem read_sizes_witness:
  "reported_counts (Ptr bn256 (0, 1, 2)) = Returns (0, 1, 2)
   \<and> sint (2 :: go_int) = 1 + 1 \<and> sint (1 :: go_int) = 1
   \<and> (0::int) \<le> 1 \<and> (1::int) + 1 < 2 ^ 63
   \<and> sint ((1 :: go_int) + 2 - 1) = 1 + 1
   \<and> ReadAndProve reported_counts read_elements echo_Prove (Ptr bn256 (0, 1, 2)) (Ptr bn256 ())
         [7, 8, 9] []
       = Returns (Some (Ptr bn256 [7, 8]), None)
   \<and> ReadAndVerify public_size read_elements accepting_Verify (Ptr bn256 ()) (Ptr bn256 ()) [7, 8, 9]
       = Returns None"
proof -
  have g: "reported_counts (Ptr bn256 (0, 1, 2)) = Returns (0, 1, 2)"
    by (simp add: reported_counts_def)
  have p: "sint (2 :: go_int) = 1 + 1" and s: "sint (1 :: go_int) = 1" by simp_all
  have r: "(0::int) \<le> 1" "(1::int) + 1 < 2 ^ 63" by simp_all
  from g p s r
    read_sizes[of reported_counts bn256 "(0, 1, 2)" 0 1 2 1 1 read_elements echo_Prove
      "Ptr bn256 ()" "[7, 8, 9]" "[]" public_size read_elements accepting_Verify "Ptr bn256 ()"
      "()" "[7, 8, 9]", OF g p s r(1) r(1) r(2)]
  show ?thesis
    by (simp add: read_elements_def echo_Prove_def accepting_Verify_def public_size_def
        assert_type_def as_Proof_def force_flag_def)
qed

section \<open>Properties of E2\<close>

lemmas api_defs = api_Add_def api_Sub_def api_Mul_def FromInterface_def

lemma E2_Mul_self_value:
  "E2_Mul q x x ext =
     \<lparr>A0 = (A0 x * A0 x + uSquare ext * (A1 x * A1 x)) mod q,
      A1 = (2 * (A0 x * A1 x)) mod q\<rparr>"
proof -
  have "(((A0 x + A1 x) mod q * ((A0 x + A1 x) mod q)) mod q
          - (A0 x * A0 x mod q + A1 x * A1 x mod q) mod q) mod q
        = ((A0 x + A1 x) * (A0 x + A1 x) - (A0 x * A0 x + A1 x * A1 x)) mod q"
    by (simp add: mod_simps)
  also have "(A0 x + A1 x) * (A0 x + A1 x) - (A0 x * A0 x + A1 x * A1 x) = 2 * (A0 x * A1 x)"
    by (simp add: algebra_simps)
  finally have a1: "(((A0 x + A1 x) mod q * ((A0 x + A1 x) mod q)) mod q
          - (A0 x * A0 x mod q + A1 x * A1 x mod q) mod q) mod q = (2 * (A0 x * A1 x)) mod q" .
  have a0: "(A0 x * A0 x mod q + (A1 x * A1 x mod q) * uSquare ext mod q) mod q
        = (A0 x * A0 x + uSquare ext * (A1 x * A1 x)) mod q"
    by (simp add: mod_simps mult.commute)
  show ?thesis
    by (simp add: E2_Mul_def api_defs Let_def a1 a0)
qed

lemma E2_Square_value:
  "E2_Square q x ext =
     \<lparr>A0 = (A0 x * A0 x + uSquare ext * (A1 x * A1 x) + (uSquare ext + 5) * A0 x * A1 x) mod q,
      A1 = (2 * (A0 x * A1 x)) mod q\<rparr>"
proof -
  have a1: "(A0 x * A1 x mod q + A0 x * A1 x mod q) mod q = (2 * (A0 x * A1 x)) mod q"
    by (simp add: mod_simps)
  have "(((A0 x + A1 x) mod q * ((A1 x * uSquare ext mod q + A0 x) mod q)) mod q
          + ((2 * (A0 x * A1 x)) mod q + (2 * (A0 x * A1 x)) mod q) mod q) mod q
        = ((A0 x + A1 x) * (A1 x * uSquare ext + A0 x) + (2 * (A0 x * A1 x) + 2 * (A0 x * A1 x))) mod q"
    by (simp add: mod_simps)
  also have "(A0 x + A1 x) * (A1 x * uSquare ext + A0 x) + (2 * (A0 x * A1 x) + 2 * (A0 x * A1 x))
      = A0 x * A0 x + uSquare ext * (A1 x * A1 x) + (uSquare ext + 5) * A0 x * A1 x"
    by (simp add: algebra_simps)
  finally have a0: "(((A0 x + A1 x) mod q * ((A1 x * uSquare ext mod q + A0 x) mod q)) mod q
          + ((2 * (A0 x * A1 x)) mod q + (2 * (A0 x * A1 x)) mod q) mod q) mod q
     = (A0 x * A0 x + uSquare ext * (A1 x * A1 x) + (uSquare ext + 5) * A0 x * A1 x) mod q" .
  have "E2_Square q x ext =
     \<lparr>A0 = (((A0 x + A1 x) mod q * ((A1 x * uSquare ext mod q + A0 x) mod q)) mod q
          + ((A0 x * A1 x mod q + A0 x * A1 x mod q) mod q
             + (A0 x * A1 x mod q + A0 x * A1 x mod q) mod q) mod q) mod q,
      A1 = (A0 x * A1 x mod q + A0 x * A1 x mod q) mod q\<rparr>"
    unfolding E2_Square_def api_defs Let_def ..
  then show ?thesis
    unfolding a1 a0 .
qed

text \<open>
  C8, amended: \<open>Square\<close> is the complex squaring formula for \<open>uSquare = -5\<close>, the
  quadratic extension of BLS12-377. For an extension with \<open>uSquare = -5\<close> and every \<open>x\<close>,
  \<open>E2.Square\<close> gives the same pair of field values as \<open>E2.Mul\<close> of \<open>x\<close> by itself.
\<close>

theorem E2_Square_eq_Mul:
  assumes "uSquare ext = - 5"
  shows "E2_Square q x ext = E2_Mul q x x ext"
  using assms by (simp add: E2_Square_value E2_Mul_self_value)

lemma bw6_761_q_gt: "4 < bw6_761_q"
  by (simp add: bw6_761_q_def bw6_761_fr_def)

text \<open>
  C8, as stated for every extension, fails: with \<open>uSquare = -1\<close> and \<open>x = (1, 1)\<close> over the
  scalar field of BW6-761, \<open>Square\<close> gives \<open>(4, 2)\<close> and \<open>Mul\<close> of \<open>x\<close> by itself gives
  \<open>(0, 2)\<close>.
\<close>

theorem E2_Square_counterexample:
  "E2_Square bw6_761_q \<lparr>A0 = 1, A1 = 1\<rparr> \<lparr>uSquare = - 1\<rparr> = \<lparr>A0 = 4, A1 = 2\<rparr>
   \<and> E2_Mul bw6_761_q \<lparr>A0 = 1, A1 = 1\<rparr> \<lparr>A0 = 1, A1 = 1\<rparr> \<lparr>uSquare = - 1\<rparr> = \<lparr>A0 = 0, A1 = 2\<rparr>"
  using bw6_761_q_gt by (simp add: E2_Square_value E2_Mul_self_value)

theorem E2_Square_eq_Mul_witness:
  "uSquare \<lparr>uSquare = - 5\<rparr> = - 5
   \<and> E2_Square bw6_761_q \<lparr>A0 = 3, A1 = 4\<rparr> \<lparr>uSquare = - 5\<rparr>
       = E2_Mul bw6_761_q \<lparr>A0 = 3, A1 = 4\<rparr> \<lparr>A0 = 3, A1 = 4\<rparr> \<lparr>uSquare = - 5\<rparr>
   \<and> A1 (E2_Mul bw6_761_q \<lparr>A0 = 3, A1 = 4\<rparr> \<lparr>A0 = 3, A1 = 4\<rparr> \<lparr>uSquare = - 5\<rparr>) = 24"
proof -
  have q: "24 < bw6_761_q" by (simp add: bw6_761_q_def bw6_761_fr_def)
  have u: "uSquare \<lparr>uSquare = - 5\<rparr> = - 5" by simp
  from q u E2_Square_eq_Mul[OF u, of bw6_761_q "\<lparr>A0 = 3, A1 = 4\<rparr>"]
  show ?thesis by (simp add: E2_Mul_self_value)
qed

section \<open>The mock commitment scheme accepts\<close>

text \<open>
  C9. The mock scheme accepts unconditionally: \<open>Scheme.Verify\<close> returns true for every
  digest, opening proof and value, and \<open>Scheme.BatchVerifySinglePoint\<close> returns true for
  every point, claimed values, commitments and batch opening proof.
\<close>

theorem mock_scheme_accepts:
  "Verify_mock s d p v \<and> BatchVerifySinglePoint s point claimedValues commitments batchOpeningProof"
  by (simp add: Verify_mock_def BatchVerifySinglePoint_def)

end
